theory Spec2Isabelle
  imports Main "HOL-Library.Sublist"
begin

section \<open>JavaScript values\<close>

text \<open>
  The raw outcome that \<^verbatim>\<open>parseResponse\<close> receives is one of two objects: the
  transport's response (\<^verbatim>\<open>response.status\<close>, the text that
  \<^verbatim>\<open>response.text()\<close> resolves to when the object has a \<^verbatim>\<open>text\<close>
  member, and what \<^verbatim>\<open>response.headers.get('Content-Type')\<close> yields when the
  object has headers), or the object literal that \<^verbatim>\<open>Net.timeout\<close> resolves
  with (\<^verbatim>\<open>error\<close>, \<^verbatim>\<open>message\<close>, \<^verbatim>\<open>severity\<close>, \<^verbatim>\<open>status\<close>).
  An absent (falsy) response is \<open>None\<close> of \<open>raw_outcome option\<close>.
\<close>

datatype raw_outcome =
    Response int "string option" "string option"
  | Synthetic bool string string int

text \<open>
  Values as the normaliser handles them. Numbers are integers (status codes, counts). An
  object is plain, an array, or a host object (a raw outcome kept by reference); it has
  its enumerable own properties in assignment order, and its non-enumerable own
  properties (what \<^verbatim>\<open>Object.defineProperty\<close> with \<^verbatim>\<open>enumerable: false\<close>
  creates). Properties are taken writable and configurable, as \<^verbatim>\<open>JSON.parse\<close> and
  assignment create them; the two properties that \<^verbatim>\<open>parseResponse\<close> defines itself
  are its last writes. Values are compared by structure: an object that two places hold
  by reference is the same value in both.
\<close>

datatype 'v kind = Plain | Array "'v list" | Host raw_outcome

datatype jsval =
    JUndefined
  | JNull
  | JBool bool
  | JNum int
  | JStr string
  | JObject "jsval kind" "(string \<times> jsval) list" "(string \<times> jsval) list"

type_synonym props = "(string \<times> jsval) list"

text \<open>An object known to be one: kind, enumerable properties, hidden properties.\<close>

type_synonym object = "jsval kind \<times> props \<times> props"

datatype thrown = NetError jsval jsval | TypeError

fun truthy :: "jsval \<Rightarrow> bool" where
  "truthy JUndefined = False"
| "truthy JNull = False"
| "truthy (JBool b) = b"
| "truthy (JNum n) = (n \<noteq> 0)"
| "truthy (JStr s) = (s \<noteq> [])"
| "truthy (JObject k ps hs) = True"

text \<open>\<^verbatim>\<open>a || b\<close>\<close>

definition js_or :: "jsval \<Rightarrow> jsval \<Rightarrow> jsval" where
  "js_or a b = (if truthy a then a else b)"

text \<open>
  What a host object answers for a property it has by construction: the fields of the
  timer's object literal, and the status of a transport response.
\<close>

fun intrinsic :: "jsval kind \<Rightarrow> string \<Rightarrow> jsval" where
  "intrinsic (Host (Synthetic e m s st)) k =
     (if k = ''error'' then JBool e
      else if k = ''message'' then JStr m
      else if k = ''severity'' then JStr s
      else if k = ''status'' then JNum st
      else JUndefined)"
| "intrinsic (Host (Response st t c)) k = (if k = ''status'' then JNum st else JUndefined)"
| "intrinsic Plain k = JUndefined"
| "intrinsic (Array xs) k = JUndefined"

text \<open>Property read \<^verbatim>\<open>o.k\<close> on an object.\<close>

fun obj_get :: "object \<Rightarrow> string \<Rightarrow> jsval" where
  "obj_get (kd, ps, hs) k =
     (case map_of hs k of
        Some v \<Rightarrow> v
      | None \<Rightarrow> (case map_of ps k of Some v \<Rightarrow> v | None \<Rightarrow> intrinsic kd k))"

text \<open>
  Property read on any value that is not \<^verbatim>\<open>null\<close> or \<^verbatim>\<open>undefined\<close>: a
  primitive has none of the properties the normaliser asks for.
\<close>

fun get_prop :: "jsval \<Rightarrow> string \<Rightarrow> jsval" where
  "get_prop (JObject kd ps hs) k = obj_get (kd, ps, hs) k"
| "get_prop v k = JUndefined"

text \<open>Replace the value of a key where it stands, or append the key.\<close>

fun put_key :: "props \<Rightarrow> string \<Rightarrow> jsval \<Rightarrow> props" where
  "put_key [] k v = [(k, v)]"
| "put_key ((k', v') # ps) k v =
     (if k' = k then (k, v) # ps else (k', v') # put_key ps k v)"

text \<open>Assignment \<^verbatim>\<open>o.k = v\<close> on an object: a hidden property keeps its place.\<close>

fun obj_put :: "object \<Rightarrow> string \<Rightarrow> jsval \<Rightarrow> object" where
  "obj_put (kd, ps, hs) k v =
     (case map_of hs k of
        Some old \<Rightarrow> (kd, ps, put_key hs k v)
      | None \<Rightarrow> (kd, put_key ps k v, hs))"

text \<open>
  Assignment \<^verbatim>\<open>x.k = v\<close> on any value. The file is a module and the code a class
  body, so it runs in strict mode: the assignment to a property of a primitive, of
  \<^verbatim>\<open>null\<close> or of \<^verbatim>\<open>undefined\<close> throws a TypeError.
\<close>

fun set_prop :: "jsval \<Rightarrow> string \<Rightarrow> jsval \<Rightarrow> thrown + object" where
  "set_prop (JObject kd ps hs) k v = Inr (obj_put (kd, ps, hs) k v)"
| "set_prop x k v = Inl TypeError"

text \<open>
  \<^verbatim>\<open>Object.defineProperty(x, k, {enumerable: false, value: v})\<close>: a TypeError when
  \<open>x\<close> is not an object; otherwise \<open>k\<close> becomes a non-enumerable property with
  value \<open>v\<close>, also when \<open>x\<close> had an enumerable property of that name. The two
  lists keep the order of the keys of each sort; the place that a key which was
  enumerable before keeps among all own keys of the object is not represented.
\<close>

fun define_hidden :: "jsval \<Rightarrow> string \<Rightarrow> jsval \<Rightarrow> thrown + jsval" where
  "define_hidden (JObject kd ps hs) k v =
     Inr (JObject kd (filter (\<lambda>p. fst p \<noteq> k) ps) (put_key hs k v))"
| "define_hidden x k v = Inl TypeError"

definition of_object :: "object \<Rightarrow> jsval" where
  "of_object ob = (case ob of (kd, ps, hs) \<Rightarrow> JObject kd ps hs)"

text \<open>\<^verbatim>\<open>Object.assign(target, source)\<close> on an object, the source's keys in order.\<close>

fun assign :: "object \<Rightarrow> props \<Rightarrow> object" where
  "assign ob [] = ob"
| "assign ob ((k, v) # src) = assign (obj_put ob k v) src"

text \<open>A raw outcome as a value: the host object itself, with nothing added to it.\<close>

definition raw_value :: "raw_outcome \<Rightarrow> jsval" where
  "raw_value r = JObject (Host r) [] []"

fun status_of :: "raw_outcome \<Rightarrow> int" where
  "status_of (Response st t c) = st"
| "status_of (Synthetic e m s st) = st"

text \<open>
  \<^verbatim>\<open>response.text\<close>: the timer's object has no such member; a transport response
  has one when its second field is set, and reading it gives that text.
\<close>

fun text_of :: "raw_outcome \<Rightarrow> string option" where
  "text_of (Response st t c) = t"
| "text_of (Synthetic e m s st) = None"

fun content_type_of :: "raw_outcome \<Rightarrow> string option" where
  "content_type_of (Response st t c) = c"
| "content_type_of (Synthetic e m s st) = None"

section \<open>Options, configuration and notifications\<close>

text \<open>
  The option bag of one call. The flags are kept as values, since the code tests some by
  truthiness and some by strict comparison with \<^verbatim>\<open>true\<close> or \<^verbatim>\<open>false\<close>;
  \<open>base\<close>, \<open>http_method\<close> (the option \<^verbatim>\<open>method\<close>), \<open>mode\<close> and
  \<open>credentials\<close> are strings when given, and \<open>retries\<close> a number when given.
  \<open>noprefix\<close> is the option of that name in the file's header comment.
\<close>

record options =
  clear :: jsval
  feedback :: jsval
  body :: jsval
  log :: jsval
  nologout :: jsval
  noparse :: jsval
  noprefix :: jsval
  nobase :: jsval
  progress :: jsval
  raw :: jsval
  throw :: jsval
  base :: "string option"
  http_method :: "string option"
  mode :: "string option"
  credentials :: "string option"
  retries :: "int option"

text \<open>The empty option bag \<^verbatim>\<open>{}\<close>.\<close>

definition no_options :: options where
  "no_options =
     \<lparr>clear = JUndefined, feedback = JUndefined, body = JUndefined, log = JUndefined,
      nologout = JUndefined, noparse = JUndefined, noprefix = JUndefined,
      nobase = JUndefined, progress = JUndefined, raw = JUndefined, throw = JUndefined,
      base = None, http_method = None, mode = None, credentials = None, retries = None\<rparr>"

text \<open>
  What a call finds around it: the URL prefix of the merged configuration of
  \<^verbatim>\<open>getConfig\<close>, \<^verbatim>\<open>location.origin\<close>, and
  \<^verbatim>\<open>JSON.parse(data, Json.decode)\<close> of the imported \<^verbatim>\<open>js-json\<close>, which is not
  part of this file: \<open>parse env data\<close> is the parsed value, \<open>None\<close> when the
  parser throws.
\<close>

record env =
  prefix_of :: string
  origin :: string
  parse :: "string \<Rightarrow> jsval option"

text \<open>
  \<^verbatim>\<open>this.callback(reason, args)\<close> hands the pair to the registered notify function
  and swallows what it throws. A call is recorded as the pair; \<open>JUndefined\<close> stands
  for no argument.
\<close>

type_synonym notification = "string \<times> jsval"

definition callback :: "string \<Rightarrow> jsval \<Rightarrow> notification list" where
  "callback reason args = [(reason, args)]"

section \<open>The response normaliser\<close>

text \<open>
  The diagnostic sinks of the code (\<^verbatim>\<open>print\<close>, \<^verbatim>\<open>console.log\<close>,
  \<^verbatim>\<open>log.trace\<close>) are taken to be there and leave no trace in the model, and reading
  the body of a response (\<^verbatim>\<open>await response.text()\<close>) is taken to succeed. A
  notification holds the envelope as it was when \<^verbatim>\<open>callback\<close> was called.

  \<^verbatim>\<open>contentType && contentType.indexOf('application/json') == 0\<close>
\<close>

definition json_type :: "string option \<Rightarrow> bool" where
  "json_type ct = (case ct of None \<Rightarrow> False | Some c \<Rightarrow> c \<noteq> [] \<and> prefix ''application/json'' c)"

text \<open>
  Lines 96 to 120 of \<^verbatim>\<open>parseResponse\<close>: the status and the envelope \<open>resp\<close>
  before the status check. \<open>resp\<close> starts as \<^verbatim>\<open>{url}\<close>; a JSON body that
  parses replaces it by the parsed value, whatever that is, and the assignment of
  \<^verbatim>\<open>resp.response\<close> then needs that value to be an object.
\<close>

definition read_body :: "env \<Rightarrow> options \<Rightarrow> object \<Rightarrow> raw_outcome \<Rightarrow> jsval" where
  "read_body env opts resp r =
     (case text_of r of
        None \<Rightarrow> of_object resp
      | Some data \<Rightarrow>
          if data \<noteq> [] \<and> json_type (content_type_of r) \<and> \<not> truthy (noparse opts)
          then (case parse env data of Some v \<Rightarrow> v | None \<Rightarrow> of_object resp)
          else of_object (obj_put resp ''data'' (JStr data)))"

definition read_response ::
    "env \<Rightarrow> string \<Rightarrow> options \<Rightarrow> raw_outcome option \<Rightarrow> thrown + (int \<times> object)" where
  "read_response env url opts response =
     (let resp = (Plain, [(''url'', JStr url)], []) in
      case response of
        None \<Rightarrow> Inr (444, resp)
      | Some r \<Rightarrow>
          (case set_prop (read_body env opts resp r) ''response'' (raw_value r) of
             Inl e \<Rightarrow> Inl e
           | Inr ob \<Rightarrow> Inr (status_of r, ob)))"

text \<open>Lines 122 to 133: the logout notification and the status check.\<close>

definition status_rule :: "int \<Rightarrow> options \<Rightarrow> object \<Rightarrow> notification list \<times> object" where
  "status_rule status opts resp =
     (if status = 401
      then (if nologout opts \<noteq> JBool True then callback ''logout'' (of_object resp) else [], resp)
      else if status \<noteq> 200
      then ([], assign resp
              [(''error'', JBool True),
               (''message'', JStr ''Could Not Communicate With Server''),
               (''severity'', JStr ''error'')])
      else ([], resp))"

text \<open>Lines 135 to 140: the feedback and stop notifications.\<close>

definition feedback_rule :: "int \<Rightarrow> options \<Rightarrow> object \<Rightarrow> notification list" where
  "feedback_rule status opts resp =
     (if feedback opts \<noteq> JBool False \<and> (status \<noteq> 200 \<or> truthy (obj_get resp ''error''))
      then callback ''feedback'' (of_object resp) else [])
     @ (if truthy (progress opts) then callback ''stop'' JUndefined else [])"

text \<open>
  Lines 142 to 147:
  \<^verbatim>\<open>resp.message = resp.message || (resp.feedback || {}).error\<close>
\<close>

definition message_rule :: "options \<Rightarrow> object \<Rightarrow> object" where
  "message_rule opts resp =
     (if truthy (obj_get resp ''error'') \<and> log opts \<noteq> JBool False
      then obj_put resp ''message''
             (js_or (obj_get resp ''message'')
                (get_prop (js_or (obj_get resp ''feedback'') (JObject Plain [] [])) ''error''))
      else resp)"

text \<open>
  Lines 161 to 175: the value returned when the call neither throws nor returns the
  envelope. \<^verbatim>\<open>Object.defineProperty\<close> is called on \<^verbatim>\<open>resp.data\<close> as it is, so
  a truthy primitive there is a TypeError.
\<close>

definition annotate :: "object \<Rightarrow> thrown + jsval" where
  "annotate resp =
     (let data = obj_get resp ''data'' in
      if truthy data
      then (case (if truthy (obj_get resp ''schema'')
                  then define_hidden data ''_schema_'' (obj_get resp ''schema'')
                  else Inr data) of
              Inl e \<Rightarrow> Inl e
            | Inr d \<Rightarrow>
                if truthy (obj_get resp ''count'')
                then define_hidden d ''_count_'' (obj_get resp ''count'')
                else Inr d)
      else Inr data)"

text \<open>
  Lines 152 to 176: throw, return the envelope, or return the data. The first component
  is the login notification of line 154.
\<close>

definition finish :: "int \<Rightarrow> options \<Rightarrow> object \<Rightarrow> notification list \<times> (thrown + jsval)" where
  "finish status opts resp =
     (if truthy (obj_get resp ''error'') \<and> throw opts \<noteq> JBool False
      then (if status = 401 then callback ''login'' JUndefined else [],
            Inl (NetError (js_or (obj_get resp ''message'') (JStr ''Cannot complete operation''))
                   (of_object resp)))
      else if raw opts = JBool True then ([], Inr (of_object resp))
      else ([], annotate resp))"

text \<open>
  Lines 96 to 150: the status, the notifications so far and the envelope as it stands
  when the code decides between throwing and returning, unless the assignment of
  \<^verbatim>\<open>resp.response\<close> threw.
\<close>

definition normalise ::
    "env \<Rightarrow> string \<Rightarrow> options \<Rightarrow> raw_outcome option
       \<Rightarrow> thrown + (int \<times> notification list \<times> object)" where
  "normalise env url opts response =
     (case read_response env url opts response of
        Inl e \<Rightarrow> Inl e
      | Inr (status, resp0) \<Rightarrow>
          (case status_rule status opts resp0 of
             (n1, resp1) \<Rightarrow>
               Inr (status, n1 @ feedback_rule status opts resp1, message_rule opts resp1)))"

text \<open>
  \<^verbatim>\<open>parseResponse(url, options, response)\<close>: the notifications it emits, in order,
  and how it ends.
\<close>

definition parseResponse ::
    "env \<Rightarrow> string \<Rightarrow> options \<Rightarrow> raw_outcome option
       \<Rightarrow> notification list \<times> (thrown + jsval)" where
  "parseResponse env url opts response =
     (case normalise env url opts response of
        Inl e \<Rightarrow> ([], Inl e)
      | Inr (status, ns, resp) \<Rightarrow>
          (case finish status opts resp of (n3, result) \<Rightarrow> (ns @ n3, result)))"

section \<open>The deadline timer, the retry driver and their race\<close>

text \<open>
  Lines 196 to 201: what the timer's promise resolves with. The delay of the timer
  (\<^verbatim>\<open>this.config.timeouts.http * 1000\<close>) decides where its callback stands among
  the events of a call, and nothing else.
\<close>

definition timeout_outcome :: raw_outcome where
  "timeout_outcome = Synthetic True ''Request timed out, please retry'' ''error'' 444"

text \<open>
  One \<^verbatim>\<open>await fetch(url, args)\<close> of the retry driver either throws or yields a
  value, \<open>None\<close> when the value is falsy. A call is driven by what happens to it, in
  the order of the event loop: the timer's callback runs, or the attempt the driver is
  waiting on ends.
\<close>

datatype attempt = Throws | Yields "raw_outcome option"

datatype event = TimerFires | Completes attempt

text \<open>
  The state of one call between two events: \<^verbatim>\<open>state.timeout\<close>; the value
  \<^verbatim>\<open>Promise.race\<close> has resolved with, if it has; the driver's variables
  \<^verbatim>\<open>retries\<close> and \<^verbatim>\<open>retry\<close>; whether the driver is still waiting on an attempt;
  and how many times it has called the transport.
\<close>

record call_state =
  timeout_flag :: bool
  settled :: "raw_outcome option option"
  retries_left :: int
  retry :: nat
  pending :: bool
  attempts :: nat

text \<open>\<^verbatim>\<open>let retries = options.retries || 1\<close>\<close>

definition retries_of :: "options \<Rightarrow> int" where
  "retries_of opts = (case retries opts of None \<Rightarrow> 1 | Some n \<Rightarrow> if n = 0 then 1 else n)"

text \<open>
  The call as \<^verbatim>\<open>Promise.race\<close> leaves it at its first suspension: the timer is
  set, the driver has issued its first attempt.
\<close>

definition start :: "options \<Rightarrow> call_state" where
  "start opts =
     \<lparr>timeout_flag = False, settled = None, retries_left = retries_of opts, retry = 0,
      pending = True, attempts = 1\<rparr>"

text \<open>
  A promise of the race resolves with \<open>v\<close>: the race takes the first value and
  ignores every later one.
\<close>

definition settle :: "call_state \<Rightarrow> raw_outcome option \<Rightarrow> call_state" where
  "settle s v = (case settled s of None \<Rightarrow> s\<lparr>settled := Some v\<rparr> | Some w \<Rightarrow> s)"

text \<open>
  Lines 194 to 202, the timer's callback. \<^verbatim>\<open>fetch\<close> clears the timer as soon as
  the race has resolved (line 90), so the callback runs only before that.
\<close>

definition timer_fires :: "call_state \<Rightarrow> call_state" where
  "timer_fires s =
     (case settled s of
        None \<Rightarrow> settle (s\<lparr>timeout_flag := True\<rparr>) (Some timeout_outcome)
      | Some w \<Rightarrow> s)"

text \<open>
  Lines 230 to 242, after an attempt that threw or yielded nothing: return at once when
  the timer has fired, leave the loop when no retries are left, else count the retry and
  either issue the next attempt or fall out of the loop. \<^verbatim>\<open>response\<close> is falsy on
  each of these paths.
\<close>

definition attempt_failed :: "call_state \<Rightarrow> call_state" where
  "attempt_failed s =
     (if timeout_flag s then settle (s\<lparr>pending := False\<rparr>) None
      else if retries_left s \<le> 0 then settle (s\<lparr>pending := False\<rparr>) None
      else
        (let s' = s\<lparr>retry := retry s + 1, retries_left := retries_left s - 1\<rparr> in
         if retries_left s' > 0 then s'\<lparr>attempts := attempts s' + 1\<rparr>
         else settle (s'\<lparr>pending := False\<rparr>) None))"

text \<open>Lines 222 to 242: the driver resumes from the attempt it was waiting on.\<close>

definition attempt_ends :: "call_state \<Rightarrow> attempt \<Rightarrow> call_state" where
  "attempt_ends s a =
     (if \<not> pending s then s
      else case a of
             Yields (Some r) \<Rightarrow> settle (s\<lparr>pending := False\<rparr>) (Some r)
           | Yields None \<Rightarrow> attempt_failed s
           | Throws \<Rightarrow> attempt_failed s)"

fun step :: "call_state \<Rightarrow> event \<Rightarrow> call_state" where
  "step s TimerFires = timer_fires s"
| "step s (Completes a) = attempt_ends s a"

definition run :: "call_state \<Rightarrow> event list \<Rightarrow> call_state" where
  "run s evs = foldl step s evs"

section \<open>The facade\<close>

text \<open>
  Option bags are objects that the caller and the code share by reference: a heap of
  them, an address being a position in it. \<^verbatim>\<open>Object.assign({}, options)\<close> is a new
  object at the end of the heap.
\<close>

type_synonym heap = "options list"

definition copy_object :: "heap \<Rightarrow> nat \<Rightarrow> heap \<times> nat" where
  "copy_object h a = (h @ [h ! a], length h)"

definition modify :: "heap \<Rightarrow> nat \<Rightarrow> (options \<Rightarrow> options) \<Rightarrow> heap" where
  "modify h a f = h[a := f (h ! a)]"

text \<open>A string option is truthy when it is given and not empty.\<close>

fun given :: "string option \<Rightarrow> bool" where
  "given None = False"
| "given (Some s) = (s \<noteq> [])"

text \<open>
  Lines 211 to 218 of \<^verbatim>\<open>fetchRetry\<close>: the request descriptor \<^verbatim>\<open>args\<close>, a copy of
  the options with the method defaulted, the mode defaulted and the credentials forced.
\<close>

definition fetchRetry_args :: "heap \<Rightarrow> nat \<Rightarrow> heap \<times> nat" where
  "fetchRetry_args h opts =
     (case copy_object h opts of
        (h1, args) \<Rightarrow>
          (let h2 = (if \<not> given (http_method (h1 ! args))
                     then modify h1 args (\<lambda>x. x\<lparr>http_method := Some ''POST''\<rparr>) else h1);
               h3 = modify h2 args
                      (\<lambda>x. x\<lparr>mode := (if given (mode x) then mode x else Some ''cors'')\<rparr>);
               h4 = modify h3 args (\<lambda>x. x\<lparr>credentials := Some ''include''\<rparr>)
           in (h4, args)))"

text \<open>Lines 67 to 75 of \<^verbatim>\<open>fetch\<close>: the target URL.\<close>

definition resolve_url :: "env \<Rightarrow> options \<Rightarrow> string \<Rightarrow> string" where
  "resolve_url env opts url =
     (if prefix ''http'' url then url
      else if given (base opts) then the (base opts) @ ''/'' @ url
      else if \<not> truthy (nobase opts) \<and> prefix_of env \<noteq> [] then prefix_of env @ ''/'' @ url
      else origin env @ ''/'' @ url)"

text \<open>
  \<^verbatim>\<open>fetch(url, options)\<close> on a heap, with the events of the call in their order:
  the heap afterwards, the notifications, and how the call ends. \<open>None\<close> when the
  events end before the race has resolved: the call is still waiting.
\<close>

definition fetch ::
    "env \<Rightarrow> heap \<Rightarrow> nat \<Rightarrow> string \<Rightarrow> event list
       \<Rightarrow> (heap \<times> notification list \<times> (thrown + jsval)) option" where
  "fetch env h opts url evs =
     (let n0 = (if truthy (clear (h ! opts)) then callback ''clear'' JUndefined else []);
          url' = resolve_url env (h ! opts) url;
          n1 = (if truthy (progress (h ! opts)) then callback ''start'' JUndefined else [])
      in case fetchRetry_args h opts of
           (h', args) \<Rightarrow>
             (case settled (run (start (h' ! opts)) evs) of
                None \<Rightarrow> None
              | Some response \<Rightarrow>
                  (case parseResponse env url' (h' ! opts) response of
                     (n2, result) \<Rightarrow> Some (h', n0 @ n1 @ n2, result))))"

text \<open>Lines 178 to 187.\<close>

definition get ::
    "env \<Rightarrow> heap \<Rightarrow> nat \<Rightarrow> string \<Rightarrow> event list
       \<Rightarrow> (heap \<times> notification list \<times> (thrown + jsval)) option" where
  "get env h opts url evs =
     (case copy_object h opts of
        (h1, opts') \<Rightarrow>
          fetch env (modify h1 opts' (\<lambda>x. x\<lparr>http_method := Some ''GET''\<rparr>)) opts' url evs)"

definition post ::
    "env \<Rightarrow> heap \<Rightarrow> nat \<Rightarrow> string \<Rightarrow> event list
       \<Rightarrow> (heap \<times> notification list \<times> (thrown + jsval)) option" where
  "post env h opts url evs =
     fetch env (modify h opts (\<lambda>x. x\<lparr>http_method := Some ''POST''\<rparr>)) opts url evs"

section \<open>Observers and example inputs\<close>

text \<open>
  The own property \<open>k\<close> of a value: whether it is enumerable, and its value. And the
  value without its own property \<open>k\<close>, enumerable or not.
\<close>

fun own_prop :: "jsval \<Rightarrow> string \<Rightarrow> (bool \<times> jsval) option" where
  "own_prop (JObject kd ps hs) k =
     (case map_of hs k of
        Some v \<Rightarrow> Some (False, v)
      | None \<Rightarrow> (case map_of ps k of Some v \<Rightarrow> Some (True, v) | None \<Rightarrow> None))"
| "own_prop v k = None"

fun without_key :: "jsval \<Rightarrow> string \<Rightarrow> jsval" where
  "without_key (JObject kd ps hs) k =
     JObject kd (filter (\<lambda>p. fst p \<noteq> k) ps) (filter (\<lambda>p. fst p \<noteq> k) hs)"
| "without_key v k = v"

fun is_object :: "jsval \<Rightarrow> bool" where
  "is_object (JObject kd ps hs) = True"
| "is_object v = False"

text \<open>
  A value without its own properties \<^verbatim>\<open>_schema_\<close> and \<^verbatim>\<open>_count_\<close>, enumerable
  or not: what two values agree on when they differ in these two properties at most.
\<close>

definition unannotated :: "jsval \<Rightarrow> jsval" where
  "unannotated v = without_key (without_key v ''_schema_'') ''_count_''"

text \<open>
  The envelope that \<^verbatim>\<open>parseResponse\<close> makes of the timer's object for a request to
  \<open>url\<close>.
\<close>

definition timeout_envelope :: "string \<Rightarrow> jsval" where
  "timeout_envelope url =
     JObject Plain
       [(''url'', JStr url),
        (''response'',
         JObject (Host (Synthetic True ''Request timed out, please retry'' ''error'' 444)) [] []),
        (''error'', JBool True),
        (''message'', JStr ''Could Not Communicate With Server''),
        (''severity'', JStr ''error'')] []"

text \<open>How a call ended, without the heap and the notifications.\<close>

definition ending ::
    "(heap \<times> notification list \<times> (thrown + jsval)) option \<Rightarrow> (thrown + jsval) option" where
  "ending r = map_option (\<lambda>x. snd (snd x)) r"

definition heap_after ::
    "(heap \<times> notification list \<times> (thrown + jsval)) option \<Rightarrow> heap option" where
  "heap_after r = map_option fst r"

definition notifications ::
    "(heap \<times> notification list \<times> (thrown + jsval)) option \<Rightarrow> notification list" where
  "notifications r = (case r of None \<Rightarrow> [] | Some x \<Rightarrow> fst (snd x))"

text \<open>
  The value that \<^verbatim>\<open>JSON.parse\<close> gave for the body of a response, when the body was
  parsed (line 109) and the parser did not throw.
\<close>

definition parsed_json :: "env \<Rightarrow> options \<Rightarrow> raw_outcome option \<Rightarrow> jsval option" where
  "parsed_json env opts response =
     (case response of
        None \<Rightarrow> None
      | Some r \<Rightarrow>
          (case text_of r of
             None \<Rightarrow> None
           | Some data \<Rightarrow>
               if data \<noteq> [] \<and> json_type (content_type_of r) \<and> \<not> truthy (noparse opts)
               then parse env data else None))"

text \<open>
  Example bodies, and a parser for them: each JSON text with the value that
  \<^verbatim>\<open>JSON.parse\<close> gives for it, and a throw for every other text.
\<close>

definition ok_body :: string where
  \<open>ok_body = ''{"data":{"ok":true}}''\<close>

definition items_body :: string where
  \<open>items_body = ''{"data":[1,2,3],"count":3}''\<close>

definition quota_body :: string where
  \<open>quota_body = ''{"error":true,"message":"Quota exceeded"}''\<close>

definition partial_body :: string where
  \<open>partial_body = ''{"data":"partial","count":1}''\<close>

definition null_body :: string where
  "null_body = ''null''"

definition tagged_body :: string where
  \<open>tagged_body = ''{"data":{"_count_":9,"a":1},"count":7}''\<close>

definition example_parse :: "string \<Rightarrow> jsval option" where
  "example_parse s =
     (if s = ok_body
      then Some (JObject Plain [(''data'', JObject Plain [(''ok'', JBool True)] [])] [])
      else if s = items_body
      then Some (JObject Plain
                  [(''data'', JObject (Array [JNum 1, JNum 2, JNum 3]) [] []),
                   (''count'', JNum 3)] [])
      else if s = quota_body
      then Some (JObject Plain
                  [(''error'', JBool True), (''message'', JStr ''Quota exceeded'')] [])
      else if s = partial_body
      then Some (JObject Plain [(''data'', JStr ''partial''), (''count'', JNum 1)] [])
      else if s = null_body then Some JNull
      else if s = tagged_body
      then Some (JObject Plain
                  [(''data'', JObject Plain [(''_count_'', JNum 9), (''a'', JNum 1)] []),
                   (''count'', JNum 7)] [])
      else None)"

definition example_env :: env where
  "example_env =
     \<lparr>prefix_of = ''https://api.example.com'', origin = ''https://app.example.com'',
      parse = example_parse\<rparr>"

definition json_response :: "int \<Rightarrow> string \<Rightarrow> raw_outcome" where
  "json_response st text = Response st (Some text) (Some ''application/json'')"

section \<open>Properties of values and of the race\<close>

text \<open>
  A property read after a write; a race that has resolved keeps its value; and the timer's
  callback, run while the race is unresolved, resolves it with the timer's object.
\<close>

lemma map_of_put_key:
  "map_of (put_key ps k v) k' = (if k' = k then Some v else map_of ps k')"
  by (induction ps) auto

lemma obj_get_put: "obj_get (obj_put ob k v) k' = (if k' = k then v else obj_get ob k')"
  by (cases ob) (auto simp: map_of_put_key split: option.splits)

lemma settled_step: "settled s = Some w \<Longrightarrow> settled (step s e) = Some w"
  by (cases e)
     (auto simp: timer_fires_def attempt_ends_def attempt_failed_def settle_def Let_def
           split: attempt.splits option.splits)

lemma settled_run: "settled s = Some w \<Longrightarrow> settled (run s evs) = Some w"
  unfolding run_def by (induction evs arbitrary: s) (auto simp: settled_step)

lemma race_timeout:
  assumes "settled (run s before) = None"
  shows "settled (run s (before @ TimerFires # later)) = Some (Some timeout_outcome)"
proof -
  have "settled (step (run s before) TimerFires) = Some (Some timeout_outcome)"
    using assms by (simp add: timer_fires_def settle_def)
  then have "settled (run (step (run s before) TimerFires) later) = Some (Some timeout_outcome)"
    by (rule settled_run)
  then show ?thesis by (simp add: run_def)
qed

lemma fetchRetry_args_keeps:
  "a < length h \<Longrightarrow> fst (fetchRetry_args h a) ! a = h ! a"
  by (simp add: fetchRetry_args_def copy_object_def modify_def Let_def nth_append)

lemma fetch_settled:
  assumes "a < length h" and "settled (run (start (h ! a)) evs) = Some response"
  shows "fetch env h a url evs =
           Some (fst (fetchRetry_args h a),
                 (if truthy (clear (h ! a)) then [(''clear'', JUndefined)] else [])
                 @ (if truthy (progress (h ! a)) then [(''start'', JUndefined)] else [])
                 @ fst (parseResponse env (resolve_url env (h ! a) url) (h ! a) response),
                 snd (parseResponse env (resolve_url env (h ! a) url) (h ! a) response))"
proof -
  obtain h' args where fa: "fetchRetry_args h a = (h', args)"
    by (cases "fetchRetry_args h a")
  with fetchRetry_args_keeps [OF assms(1)] have "h' ! a = h ! a"
    by simp
  with fa assms(2) show ?thesis
    by (simp add: fetch_def Let_def callback_def split: prod.splits)
qed

lemma normalise_timeout:
  "normalise env url opts (Some timeout_outcome) =
     Inr (444,
          (if feedback opts \<noteq> JBool False
           then [(''feedback'',
                  JObject Plain
                    [(''url'', JStr url), (''response'', raw_value timeout_outcome),
                     (''error'', JBool True),
                     (''message'', JStr ''Could Not Communicate With Server''),
                     (''severity'', JStr ''error'')] [])]
           else [])
          @ (if truthy (progress opts) then [(''stop'', JUndefined)] else []),
          (Plain,
           [(''url'', JStr url), (''response'', raw_value timeout_outcome),
            (''error'', JBool True),
            (''message'', JStr ''Could Not Communicate With Server''),
            (''severity'', JStr ''error'')], []))"
  by (simp add: normalise_def read_response_def read_body_def timeout_outcome_def of_object_def
      status_rule_def feedback_rule_def message_rule_def callback_def js_or_def raw_value_def)

section \<open>Properties of the normaliser\<close>

text \<open>
  The stages of \<^verbatim>\<open>parseResponse\<close> one by one: which properties of the envelope each
  stage reads and writes, what the annotation of the returned data changes, and that
  \<^verbatim>\<open>options.raw\<close> is read by the last stage only.
\<close>

lemma get_prop_of_object: "get_prop (of_object ob) k = obj_get ob k"
  by (cases ob) (simp add: of_object_def)

lemma set_prop_Inr: "set_prop v k x = Inr ob \<Longrightarrow> obj_get ob k' = (if k' = k then x else get_prop v k')"
  by (cases v) (auto simp: obj_get_put simp del: obj_get.simps obj_put.simps)

lemma status_rule_error:
  "obj_get (snd (status_rule st opts resp)) ''error''
     = (if st \<noteq> 401 \<and> st \<noteq> 200 then JBool True else obj_get resp ''error'')"
  by (simp add: status_rule_def obj_get_put del: obj_get.simps obj_put.simps)

lemma message_rule_other: "k \<noteq> ''message'' \<Longrightarrow> obj_get (message_rule opts resp) k = obj_get resp k"
  by (simp add: message_rule_def obj_get_put del: obj_get.simps obj_put.simps)

lemma read_body_prop:
  "k \<noteq> ''url'' \<Longrightarrow> k \<noteq> ''data'' \<Longrightarrow>
   get_prop (read_body env opts (Plain, [(''url'', JStr url)], []) r) k
     = (case parsed_json env opts (Some r) of None \<Rightarrow> JUndefined | Some v \<Rightarrow> get_prop v k)"
  by (auto simp: read_body_def parsed_json_def of_object_def split: option.splits)

lemma normalise_Inr:
  assumes "normalise env url opts response = Inr (status, ns, resp)"
  obtains resp0 where "read_response env url opts response = Inr (status, resp0)"
    and "resp = message_rule opts (snd (status_rule status opts resp0))"
    and "ns = fst (status_rule status opts resp0) @ feedback_rule status opts (snd (status_rule status opts resp0))"
  using assms by (auto simp: normalise_def split: sum.splits prod.splits)

lemma read_response_None: "read_response env url opts None = Inr (444, (Plain, [(''url'', JStr url)], []))"
  by (simp add: read_response_def)

lemma read_response_Some:
  assumes "read_response env url opts (Some r) = Inr (status, resp0)"
  shows "status = status_of r"
    and "set_prop (read_body env opts (Plain, [(''url'', JStr url)], []) r) ''response'' (raw_value r) = Inr resp0"
  using assms by (auto simp: read_response_def Let_def split: sum.splits)

lemma filter_put_key_same:
  "filter (\<lambda>p. fst p \<noteq> k \<and> Q p) (put_key hs k v) = filter (\<lambda>p. fst p \<noteq> k \<and> Q p) hs"
  by (induction hs) auto

lemma filter_put_key_same':
  "filter (\<lambda>p. Q p \<and> fst p \<noteq> k) (put_key hs k v) = filter (\<lambda>p. Q p \<and> fst p \<noteq> k) hs"
  by (induction hs) auto

lemma unannotated_define_schema:
  "define_hidden x ''_schema_'' v = Inr d \<Longrightarrow> unannotated d = unannotated x"
  by (cases x) (auto simp: unannotated_def filter_put_key_same filter_put_key_same' intro: filter_cong)

lemma unannotated_define_count:
  "define_hidden x ''_count_'' v = Inr d \<Longrightarrow> unannotated d = unannotated x"
  by (cases x) (auto simp: unannotated_def filter_put_key_same filter_put_key_same' intro: filter_cong)

lemma map_of_filter_key:
  "map_of (filter (\<lambda>p. fst p \<noteq> k) ps) k' = (if k' = k then None else map_of ps k')"
  by (induction ps) auto

lemma own_define:
  "define_hidden x k v = Inr d \<Longrightarrow>
   own_prop d k' = (if k' = k then Some (False, v) else own_prop x k')"
  by (cases x) (auto simp: map_of_put_key map_of_filter_key split: option.splits)

lemma annotate_Inr:
  assumes "annotate resp = Inr d"
  shows "unannotated d = unannotated (obj_get resp ''data'')"
    and "\<not> truthy (obj_get resp ''data'')
         \<or> (\<not> truthy (obj_get resp ''schema'') \<and> \<not> truthy (obj_get resp ''count''))
           \<longrightarrow> d = obj_get resp ''data''"
    and "own_prop d ''_schema_''
           = (if truthy (obj_get resp ''data'') \<and> truthy (obj_get resp ''schema'')
              then Some (False, obj_get resp ''schema'')
              else own_prop (obj_get resp ''data'') ''_schema_'')"
    and "own_prop d ''_count_''
           = (if truthy (obj_get resp ''data'') \<and> truthy (obj_get resp ''count'')
              then Some (False, obj_get resp ''count'')
              else own_prop (obj_get resp ''data'') ''_count_'')"
  using assms
  by (auto simp: annotate_def Let_def unannotated_define_schema unannotated_define_count own_define
           split: if_splits sum.splits simp del: obj_get.simps)

lemma annotate_total:
  assumes "is_object (obj_get resp ''data'') \<or> \<not> truthy (obj_get resp ''data'')
           \<or> (\<not> truthy (obj_get resp ''schema'') \<and> \<not> truthy (obj_get resp ''count''))"
  shows "\<exists>d. annotate resp = Inr d"
proof (cases "obj_get resp ''data''")
  case (JObject kd ps hs)
  then show ?thesis
    by (simp add: annotate_def Let_def del: obj_get.simps)
qed (use assms in \<open>auto simp: annotate_def Let_def simp del: obj_get.simps\<close>)

lemma raw_is_read_last:
  "read_body env (opts\<lparr>raw := x\<rparr>) = read_body env opts"
  "status_rule status (opts\<lparr>raw := x\<rparr>) = status_rule status opts"
  "feedback_rule status (opts\<lparr>raw := x\<rparr>) = feedback_rule status opts"
  "message_rule (opts\<lparr>raw := x\<rparr>) = message_rule opts"
  by (auto simp: fun_eq_iff read_body_def status_rule_def feedback_rule_def message_rule_def
           split: option.splits)

lemma normalise_raw: "normalise env url (opts\<lparr>raw := x\<rparr>) response = normalise env url opts response"
  unfolding normalise_def read_response_def raw_is_read_last by (rule refl)

lemma parseResponse_returns:
  assumes "parseResponse env url opts response = (ns, Inr x)"
  obtains status n0 resp where "normalise env url opts response = Inr (status, n0, resp)"
    and "finish status opts resp = ([], Inr x)" and "ns = n0"
  using assms
  by (auto simp: parseResponse_def finish_def split: sum.splits prod.splits if_splits)

lemma json_type_prefix: "prefix ''application/json'' ct \<Longrightarrow> json_type (Some ct)"
  by (auto simp: json_type_def)

lemma parseResponse_json_200:
  assumes "prefix ''application/json'' ct" and "txt \<noteq> []"
    and "\<not> truthy (noparse opts)" and "parse env txt = Some v" and "is_object v"
  obtains resp where "set_prop v ''response'' (raw_value (Response 200 (Some txt) (Some ct))) = Inr resp"
    and "parseResponse env url opts (Some (Response 200 (Some txt) (Some ct)))
           = (feedback_rule 200 opts resp, snd (finish 200 opts (message_rule opts resp)))"
proof -
  from assms(5) obtain kd ps hs where v: "v = JObject kd ps hs"
    by (cases v) auto
  define resp where "resp = obj_put (kd, ps, hs) ''response'' (raw_value (Response 200 (Some txt) (Some ct)))"
  have s: "set_prop v ''response'' (raw_value (Response 200 (Some txt) (Some ct))) = Inr resp"
    by (simp add: v resp_def del: obj_put.simps)
  have "read_response env url opts (Some (Response 200 (Some txt) (Some ct))) = Inr (200, resp)"
    using assms(1-4) s by (simp add: read_response_def read_body_def json_type_prefix)
  then have "parseResponse env url opts (Some (Response 200 (Some txt) (Some ct)))
           = (feedback_rule 200 opts resp, snd (finish 200 opts (message_rule opts resp)))"
    by (simp add: parseResponse_def normalise_def status_rule_def finish_def
        split: prod.splits del: obj_get.simps)
  with s show thesis by (rule that)
qed

lemma parseResponse_timeout:
  "snd (parseResponse env url opts (Some timeout_outcome))
     = (if throw opts \<noteq> JBool False
        then Inl (NetError (JStr ''Could Not Communicate With Server'') (timeout_envelope url))
        else if raw opts = JBool True then Inr (timeout_envelope url)
        else Inr JUndefined)"
  unfolding parseResponse_def normalise_timeout
  by (simp add: finish_def annotate_def js_or_def of_object_def timeout_envelope_def
      raw_value_def timeout_outcome_def)

text \<open>
  An envelope with its error set is thrown as a NetError, after a login notification when
  the status is 401, unless \<^verbatim>\<open>options.throw\<close> is \<^verbatim>\<open>false\<close>; then the envelope or
  the annotated data is returned, and the annotation is the only thing left that can
  raise. A status of 401 emits the logout notification unless \<^verbatim>\<open>options.nologout\<close>
  is \<^verbatim>\<open>true\<close>, and leaves the error flag of the envelope alone. The envelope has
  the url of the request unless a parsed JSON body took its place.
\<close>

lemma annotate_not_NetError: "annotate resp \<noteq> Inl (NetError m p)"
proof -
  have d: "define_hidden x k v \<noteq> Inl (NetError m p)" for x k v
    by (cases x) auto
  show ?thesis
    by (auto simp: annotate_def Let_def d split: sum.splits simp del: obj_get.simps)
qed

lemma throw_gate:
  assumes "normalise env url opts response = Inr (status, ns, resp)"
    and "truthy (obj_get resp ''error'')"
  shows "throw opts \<noteq> JBool False \<Longrightarrow>
           parseResponse env url opts response
             = (ns @ (if status = 401 then [(''login'', JUndefined)] else []),
                Inl (NetError (js_or (obj_get resp ''message'') (JStr ''Cannot complete operation''))
                       (of_object resp)))"
    and "throw opts = JBool False \<Longrightarrow>
           parseResponse env url opts response
             = (ns, if raw opts = JBool True then Inr (of_object resp) else annotate resp)"
  using assms by (simp_all add: parseResponse_def finish_def callback_def del: obj_get.simps)

lemma logout_on_401:
  assumes "read_response env url opts response = Inr (401, resp0)"
  shows "normalise env url opts response
           = Inr (401,
                  (if nologout opts \<noteq> JBool True then [(''logout'', of_object resp0)] else [])
                  @ feedback_rule 401 opts resp0,
                  message_rule opts resp0)"
    and "obj_get (message_rule opts resp0) ''error'' = obj_get resp0 ''error''"
  using assms
  by (simp_all add: normalise_def status_rule_def callback_def message_rule_other del: obj_get.simps)

lemma envelope_url:
  assumes "normalise env url opts response = Inr (status, ns, resp)"
  shows "obj_get resp ''url''
           = (case parsed_json env opts response of None \<Rightarrow> JStr url | Some v \<Rightarrow> get_prop v ''url'')"
proof -
  from assms obtain resp0 where rr: "read_response env url opts response = Inr (status, resp0)"
    and resp: "resp = message_rule opts (snd (status_rule status opts resp0))"
    by (rule normalise_Inr)
  have "obj_get (snd (status_rule status opts resp0)) ''url'' = obj_get resp0 ''url''"
    by (simp add: status_rule_def obj_get_put del: obj_get.simps obj_put.simps)
  then have r: "obj_get resp ''url'' = obj_get resp0 ''url''"
    by (simp add: resp message_rule_other)
  show ?thesis
  proof (cases response)
    case None
    with rr show ?thesis by (auto simp: r read_response_None parsed_json_def)
  next
    case (Some x)
    with rr have "set_prop (read_body env opts (Plain, [(''url'', JStr url)], []) x) ''response'' (raw_value x) = Inr resp0"
      by (simp add: read_response_Some)
    then have "obj_get resp0 ''url'' = get_prop (read_body env opts (Plain, [(''url'', JStr url)], []) x) ''url''"
      by (simp add: set_prop_Inr)
    also have "\<dots> = (case parsed_json env opts (Some x) of None \<Rightarrow> JStr url | Some v \<Rightarrow> get_prop v ''url'')"
      by (auto simp: read_body_def parsed_json_def of_object_def split: option.splits)
    finally show ?thesis by (simp add: r Some)
  qed
qed

section \<open>Properties of the facade\<close>

text \<open>
  \<^verbatim>\<open>fetch\<close> and \<^verbatim>\<open>get\<close> leave every object of the heap they were given as it
  was; \<^verbatim>\<open>post\<close> sets the method in the caller's object.
\<close>

lemma noprefix_never_read: "resolve_url env (opts\<lparr>noprefix := x\<rparr>) url = resolve_url env opts url"
  by (simp add: resolve_url_def)

lemma fetchRetry_args_heap:
  "a < length h \<Longrightarrow> take (length h) (fst (fetchRetry_args h a)) = h"
  by (simp add: fetchRetry_args_def copy_object_def modify_def Let_def)

lemma fetch_heap:
  assumes "fetch env h a url evs = Some (h', ns, r)"
  shows "h' = fst (fetchRetry_args h a)"
  using assms by (auto simp: fetch_def Let_def split: prod.splits option.splits)

lemma fetch_keeps_heap:
  assumes "a < length h" and "fetch env h a url evs = Some (h', ns, r)"
  shows "take (length h) h' = h"
  using fetch_heap [OF assms(2)] fetchRetry_args_heap [OF assms(1)] by simp

lemma get_keeps_heap:
  assumes "a < length h" and "get env h a url evs = Some (h', ns, r)"
  shows "take (length h) h' = h"
proof -
  let ?h1 = "modify (h @ [h ! a]) (length h) (\<lambda>x. x\<lparr>http_method := Some ''GET''\<rparr>)"
  from assms(2) have f: "fetch env ?h1 (length h) url evs = Some (h', ns, r)"
    by (simp add: get_def copy_object_def)
  have "length h < length ?h1"
    by (simp add: modify_def)
  from fetch_keeps_heap [OF this f] have "take (length ?h1) h' = ?h1" .
  then have "take (length h) (take (length ?h1) h') = take (length h) ?h1"
    by simp
  then show ?thesis
    by (simp add: modify_def min_def)
qed

lemma post_changes_heap:
  assumes "a < length h" and "post env h a url evs = Some (h', ns, r)"
  shows "h' ! a = (h ! a)\<lparr>http_method := Some ''POST''\<rparr>"
proof -
  let ?h1 = "modify h a (\<lambda>x. x\<lparr>http_method := Some ''POST''\<rparr>)"
  from assms(2) have f: "fetch env ?h1 a url evs = Some (h', ns, r)"
    by (simp add: post_def)
  have l: "a < length ?h1" using assms(1) by (simp add: modify_def)
  from fetch_heap [OF f] fetchRetry_args_keeps [OF l] have "h' ! a = ?h1 ! a" by simp
  then show ?thesis using assms(1) by (simp add: modify_def)
qed

section \<open>Counting attempts\<close>

text \<open>
  The driver makes at most \<^verbatim>\<open>retries\<close> attempts: \<open>k\<close> failures followed by a
  response are \<open>k + 1\<close> attempts when \<open>k\<close> is less than \<^verbatim>\<open>retries\<close>, and
  \<^verbatim>\<open>retries\<close> failures in a row end the driver without a response.
\<close>

lemma run_snoc: "run s (evs @ [e]) = step (run s evs) e"
  by (simp add: run_def)

lemma run_Cons: "run s (e # evs) = run (step s e) evs"
  by (simp add: run_def)

lemma throws_keep_trying:
  assumes "pending s" and "settled s = None" and "\<not> timeout_flag s" and "int k < retries_left s"
  shows "run s (replicate k (Completes Throws))
           = s\<lparr>retry := retry s + k, retries_left := retries_left s - int k,
               attempts := attempts s + k\<rparr>"
  using assms
proof (induction k arbitrary: s)
  case 0
  then show ?case by (simp add: run_def)
next
  case (Suc k)
  define s1 where
    "s1 = s\<lparr>retry := retry s + 1, retries_left := retries_left s - 1, attempts := attempts s + 1\<rparr>"
  have st: "attempt_ends s Throws = s1"
    using Suc.prems by (simp add: s1_def attempt_ends_def attempt_failed_def Let_def)
  have ih: "run s1 (replicate k (Completes Throws))
          = s1\<lparr>retry := retry s1 + k, retries_left := retries_left s1 - int k,
               attempts := attempts s1 + k\<rparr>"
    using Suc.prems by (intro Suc.IH) (simp_all add: s1_def)
  have "run s (replicate (Suc k) (Completes Throws))
          = run (attempt_ends s Throws) (replicate k (Completes Throws))"
    by (simp add: run_Cons)
  also have "\<dots> = run s1 (replicate k (Completes Throws))"
    by (simp only: st)
  also have "\<dots> = s1\<lparr>retry := retry s1 + k, retries_left := retries_left s1 - int k,
               attempts := attempts s1 + k\<rparr>"
    by (rule ih)
  also have "\<dots> = s\<lparr>retry := retry s + Suc k, retries_left := retries_left s - int (Suc k),
               attempts := attempts s + Suc k\<rparr>"
    by (simp add: s1_def algebra_simps)
  finally show ?case .
qed

lemma transient_failures:
  assumes "int k < retries_of opts"
  shows "settled (run (start opts) (replicate k (Completes Throws) @ [Completes (Yields (Some r))]))
           = Some (Some r)"
    and "attempts (run (start opts) (replicate k (Completes Throws) @ [Completes (Yields (Some r))]))
           = k + 1"
proof -
  have "run (start opts) (replicate k (Completes Throws))
          = (start opts)\<lparr>retry := retry (start opts) + k,
               retries_left := retries_left (start opts) - int k,
               attempts := attempts (start opts) + k\<rparr>"
    using assms by (intro throws_keep_trying) (simp_all add: start_def)
  then have "run (start opts) (replicate k (Completes Throws) @ [Completes (Yields (Some r))])
          = step ((start opts)\<lparr>retry := retry (start opts) + k,
               retries_left := retries_left (start opts) - int k,
               attempts := attempts (start opts) + k\<rparr>) (Completes (Yields (Some r)))"
    by (simp only: run_snoc)
  then show "settled (run (start opts) (replicate k (Completes Throws) @ [Completes (Yields (Some r))]))
           = Some (Some r)"
    and "attempts (run (start opts) (replicate k (Completes Throws) @ [Completes (Yields (Some r))]))
           = k + 1"
    by (simp_all add: attempt_ends_def settle_def start_def)
qed

lemma persistent_failures:
  assumes "retries_of opts = int (Suc k)"
  shows "settled (run (start opts) (replicate (Suc k) (Completes Throws))) = Some None"
    and "attempts (run (start opts) (replicate (Suc k) (Completes Throws))) = Suc k"
proof -
  have r: "replicate (Suc k) (Completes Throws) = replicate k (Completes Throws) @ [Completes Throws]"
    by (simp add: replicate_append_same)
  have "run (start opts) (replicate k (Completes Throws))
          = (start opts)\<lparr>retry := retry (start opts) + k,
               retries_left := retries_left (start opts) - int k,
               attempts := attempts (start opts) + k\<rparr>"
    using assms by (intro throws_keep_trying) (simp_all add: start_def)
  then have "run (start opts) (replicate (Suc k) (Completes Throws))
          = step ((start opts)\<lparr>retry := retry (start opts) + k,
               retries_left := retries_left (start opts) - int k,
               attempts := attempts (start opts) + k\<rparr>) (Completes Throws)"
    by (simp only: r run_snoc)
  then show "settled (run (start opts) (replicate (Suc k) (Completes Throws))) = Some None"
    and "attempts (run (start opts) (replicate (Suc k) (Completes Throws))) = Suc k"
    using assms by (simp_all add: attempt_ends_def attempt_failed_def settle_def start_def Let_def)
qed

section \<open>The claims\<close>

text \<open>
  C1, as the code has it. When the timer fires while the race is unresolved (the retry
  driver has produced no result yet), the race inside \<^verbatim>\<open>fetch\<close> resolves with the
  timer's object \<^verbatim>\<open>{error: true, message: 'Request timed out, please retry',
  severity: 'error', status: 444}\<close>, whatever the number of retries left and whatever the
  transport does before or after: the call ends as the call in which only the timer
  fires. \<^verbatim>\<open>fetch\<close> does not resolve with that object: it hands it to
  \<^verbatim>\<open>parseResponse\<close>, which takes it for a response of status 444, keeps it as the
  \<^verbatim>\<open>response\<close> of an envelope with its error set, and the call throws a NetError
  with that envelope unless \<^verbatim>\<open>options.throw\<close> is \<^verbatim>\<open>false\<close>; then it returns the
  envelope when \<^verbatim>\<open>options.raw\<close> is \<^verbatim>\<open>true\<close>, and \<^verbatim>\<open>undefined\<close>, the data of
  that envelope, otherwise.
\<close>

theorem timer_first_decides_the_race:
  assumes "a < length h" and "settled (run (start (h ! a)) before) = None"
  shows "settled (run (start (h ! a)) (before @ TimerFires # later))
           = Some (Some (Synthetic True ''Request timed out, please retry'' ''error'' 444))
         \<and> fetch env h a url (before @ TimerFires # later) = fetch env h a url [TimerFires]
         \<and> ending (fetch env h a url (before @ TimerFires # later))
             = Some (if throw (h ! a) \<noteq> JBool False
                     then Inl (NetError (JStr ''Could Not Communicate With Server'')
                                 (timeout_envelope (resolve_url env (h ! a) url)))
                     else if raw (h ! a) = JBool True
                     then Inr (timeout_envelope (resolve_url env (h ! a) url))
                     else Inr JUndefined)"
proof -
  have race: "settled (run (start (h ! a)) (before @ TimerFires # later))
                = Some (Some timeout_outcome)"
    by (rule race_timeout [OF assms(2)])
  have "settled (run (start (h ! a)) []) = None"
    by (simp add: run_def start_def)
  then have alone: "settled (run (start (h ! a)) ([] @ TimerFires # []))
                      = Some (Some timeout_outcome)"
    by (rule race_timeout)
  have same: "fetch env h a url (before @ TimerFires # later) = fetch env h a url [TimerFires]"
    using fetch_settled [OF assms(1) race] fetch_settled [OF assms(1) alone] by simp
  have "ending (fetch env h a url (before @ TimerFires # later))
          = Some (snd (parseResponse env (resolve_url env (h ! a) url) (h ! a)
                        (Some timeout_outcome)))"
    by (simp add: fetch_settled [OF assms(1) race] ending_def)
  then have "ending (fetch env h a url (before @ TimerFires # later))
             = Some (if throw (h ! a) \<noteq> JBool False
                     then Inl (NetError (JStr ''Could Not Communicate With Server'')
                                 (timeout_envelope (resolve_url env (h ! a) url)))
                     else if raw (h ! a) = JBool True
                     then Inr (timeout_envelope (resolve_url env (h ! a) url))
                     else Inr JUndefined)"
    by (simp only: parseResponse_timeout)
  with race same show ?thesis
    by (simp add: timeout_outcome_def)
qed

theorem timer_first_decides_the_race_witness:
  "(0::nat) < length [no_options\<lparr>retries := Some 3\<rparr>]
   \<and> settled (run (start ([no_options\<lparr>retries := Some 3\<rparr>] ! 0)) [Completes Throws]) = None
   \<and> settled (run (start ([no_options\<lparr>retries := Some 3\<rparr>] ! 0))
        ([Completes Throws] @ TimerFires
           # [Completes (Yields (Some (json_response 200 ok_body)))]))
       = Some (Some (Synthetic True ''Request timed out, please retry'' ''error'' 444))
   \<and> ending (fetch example_env [no_options\<lparr>retries := Some 3\<rparr>] 0 ''items''
        ([Completes Throws] @ TimerFires
           # [Completes (Yields (Some (json_response 200 ok_body)))]))
       = Some (Inl (NetError (JStr ''Could Not Communicate With Server'')
                      (timeout_envelope ''https://api.example.com/items'')))"
proof -
  have l: "(0::nat) < length [no_options\<lparr>retries := Some 3\<rparr>]"
    by simp
  have p: "settled (run (start ([no_options\<lparr>retries := Some 3\<rparr>] ! 0)) [Completes Throws]) = None"
    by code_simp
  have u: "resolve_url example_env ([no_options\<lparr>retries := Some 3\<rparr>] ! 0) ''items''
             = ''https://api.example.com/items''"
    by code_simp
  have t: "throw ([no_options\<lparr>retries := Some 3\<rparr>] ! 0) \<noteq> JBool False"
    by (simp add: no_options_def)
  note race = timer_first_decides_the_race
    [OF l p, of "[Completes (Yields (Some (json_response 200 ok_body)))]" example_env "''items''"]
  have r: "settled (run (start ([no_options\<lparr>retries := Some 3\<rparr>] ! 0))
        ([Completes Throws] @ TimerFires
           # [Completes (Yields (Some (json_response 200 ok_body)))]))
       = Some (Some (Synthetic True ''Request timed out, please retry'' ''error'' 444))"
    by (rule race [THEN conjunct1])
  have e: "ending (fetch example_env [no_options\<lparr>retries := Some 3\<rparr>] 0 ''items''
        ([Completes Throws] @ TimerFires
           # [Completes (Yields (Some (json_response 200 ok_body)))]))
       = Some (if throw ([no_options\<lparr>retries := Some 3\<rparr>] ! 0) \<noteq> JBool False
               then Inl (NetError (JStr ''Could Not Communicate With Server'')
                      (timeout_envelope
                         (resolve_url example_env ([no_options\<lparr>retries := Some 3\<rparr>] ! 0) ''items'')))
               else if raw ([no_options\<lparr>retries := Some 3\<rparr>] ! 0) = JBool True
               then Inr (timeout_envelope
                         (resolve_url example_env ([no_options\<lparr>retries := Some 3\<rparr>] ! 0) ''items''))
               else Inr JUndefined)"
    by (rule race [THEN conjunct2, THEN conjunct2])
  show ?thesis
    using l p t u r e by simp
qed

text \<open>
  C1 as stated fails: \<^verbatim>\<open>fetch\<close> does not resolve with the timer's object. With the
  default options the call throws a NetError whose message is
  \<^verbatim>\<open>'Could Not Communicate With Server'\<close>; with \<^verbatim>\<open>{throw: false, raw: true}\<close> it
  returns the envelope, whose message is that one too.
\<close>

theorem fetch_on_timeout_counterexample:
  "ending (fetch example_env [no_options] 0 ''items'' [TimerFires])
     = Some (Inl (NetError (JStr ''Could Not Communicate With Server'')
         (JObject Plain
            [(''url'', JStr ''https://api.example.com/items''),
             (''response'',
              JObject (Host (Synthetic True ''Request timed out, please retry'' ''error'' 444))
                [] []),
             (''error'', JBool True),
             (''message'', JStr ''Could Not Communicate With Server''),
             (''severity'', JStr ''error'')] [])))
   \<and> ending (fetch example_env [no_options\<lparr>throw := JBool False, raw := JBool True\<rparr>] 0
               ''items'' [TimerFires])
     = Some (Inr (JObject Plain
            [(''url'', JStr ''https://api.example.com/items''),
             (''response'',
              JObject (Host (Synthetic True ''Request timed out, please retry'' ''error'' 444))
                [] []),
             (''error'', JBool True),
             (''message'', JStr ''Could Not Communicate With Server''),
             (''severity'', JStr ''error'')] []))"
  by code_simp

text \<open>
  C2, as the code has it. \<^verbatim>\<open>retries\<close> counts the attempts, the first included
  (\<^verbatim>\<open>do ... while (--retries > 0)\<close>, with 1 as the default). For a POST with
  \<^verbatim>\<open>{retries: 3}\<close> whose transport throws on the first two attempts and returns a
  status-200 response with the JSON body \<^verbatim>\<open>{"data":{"ok":true}}\<close> on the third,
  \<^verbatim>\<open>fetchRetry\<close> makes exactly three attempts and the call returns \<^verbatim>\<open>{ok: true}\<close>.
\<close>

theorem retries_three_attempts:
  "attempts (run (start (no_options\<lparr>retries := Some 3\<rparr>))
      [Completes Throws, Completes Throws, Completes (Yields (Some (json_response 200 ok_body)))])
     = 3
   \<and> ending (post example_env [no_options\<lparr>retries := Some 3\<rparr>] 0 ''items''
        [Completes Throws, Completes Throws, Completes (Yields (Some (json_response 200 ok_body)))])
     = Some (Inr (JObject Plain [(''ok'', JBool True)] []))"
  by code_simp

text \<open>
  C2 as stated fails: with \<^verbatim>\<open>{retries: 2}\<close> the driver stops after the second
  attempt has thrown, the third response is never asked for, and the call throws the
  NetError of an absent response.
\<close>

theorem retries_two_counterexample:
  "attempts (run (start (no_options\<lparr>retries := Some 2\<rparr>))
      [Completes Throws, Completes Throws, Completes (Yields (Some (json_response 200 ok_body)))])
     = 2
   \<and> ending (post example_env [no_options\<lparr>retries := Some 2\<rparr>] 0 ''items''
        [Completes Throws, Completes Throws, Completes (Yields (Some (json_response 200 ok_body)))])
     = Some (Inl (NetError (JStr ''Could Not Communicate With Server'')
         (JObject Plain
            [(''url'', JStr ''https://api.example.com/items''),
             (''error'', JBool True),
             (''message'', JStr ''Could Not Communicate With Server''),
             (''severity'', JStr ''error'')] [])))"
  by code_simp

text \<open>
  C3, as the code has it. For every envelope that \<^verbatim>\<open>parseResponse\<close> produces: an
  absent response has status 444; \<^verbatim>\<open>error === true\<close> holds whenever the status is
  neither 200 nor 401; and for status 200 or 401 the status check leaves the flag alone,
  so that \<^verbatim>\<open>error\<close> is what the parsed JSON body carried under that name, and unset
  when the body was not parsed as JSON.
\<close>

theorem error_flag_of_envelope:
  assumes "normalise env url opts response = Inr (status, ns, resp)"
  shows "(response = None \<longrightarrow> status = 444)
       \<and> (status \<noteq> 200 \<and> status \<noteq> 401 \<longrightarrow> obj_get resp ''error'' = JBool True)
       \<and> (status = 200 \<or> status = 401 \<longrightarrow>
            obj_get resp ''error''
              = (case parsed_json env opts response of
                   None \<Rightarrow> JUndefined
                 | Some v \<Rightarrow> get_prop v ''error''))"
proof -
  from assms obtain resp0 where rr: "read_response env url opts response = Inr (status, resp0)"
    and resp: "resp = message_rule opts (snd (status_rule status opts resp0))"
    by (rule normalise_Inr)
  have flag: "obj_get resp ''error''
                = (if status \<noteq> 401 \<and> status \<noteq> 200 then JBool True else obj_get resp0 ''error'')"
    by (simp add: resp message_rule_other status_rule_error)
  have absent: "response = None \<longrightarrow> status = 444"
    using rr by (auto simp: read_response_None)
  have body: "obj_get resp0 ''error''
      = (case parsed_json env opts response of None \<Rightarrow> JUndefined | Some v \<Rightarrow> get_prop v ''error'')"
    if "status = 200 \<or> status = 401"
  proof (cases response)
    case None
    with rr that show ?thesis by (auto simp: read_response_None)
  next
    case (Some r)
    with rr have "set_prop (read_body env opts (Plain, [(''url'', JStr url)], []) r) ''response'' (raw_value r) = Inr resp0"
      by (simp add: read_response_Some)
    then have "obj_get resp0 ''error'' = get_prop (read_body env opts (Plain, [(''url'', JStr url)], []) r) ''error''"
      by (simp add: set_prop_Inr)
    then show ?thesis by (simp add: Some read_body_prop)
  qed
  show ?thesis using flag absent body by auto
qed


theorem error_flag_of_envelope_witness:
  "normalise example_env ''u'' no_options (Some (json_response 401 ok_body))
     = Inr (401,
            [(''logout'',
              JObject Plain
                [(''data'', JObject Plain [(''ok'', JBool True)] []),
                 (''response'', raw_value (json_response 401 ok_body))] []),
             (''feedback'',
              JObject Plain
                [(''data'', JObject Plain [(''ok'', JBool True)] []),
                 (''response'', raw_value (json_response 401 ok_body))] [])],
            (Plain,
             [(''data'', JObject Plain [(''ok'', JBool True)] []),
              (''response'', raw_value (json_response 401 ok_body))], []))
   \<and> obj_get (Plain,
             [(''data'', JObject Plain [(''ok'', JBool True)] []),
              (''response'', raw_value (json_response 401 ok_body))], []) ''error''
       = (case parsed_json example_env no_options (Some (json_response 401 ok_body)) of
            None \<Rightarrow> JUndefined
          | Some v \<Rightarrow> get_prop v ''error'')"
proof -
  have n: "normalise example_env ''u'' no_options (Some (json_response 401 ok_body))
     = Inr (401,
            [(''logout'',
              JObject Plain
                [(''data'', JObject Plain [(''ok'', JBool True)] []),
                 (''response'', raw_value (json_response 401 ok_body))] []),
             (''feedback'',
              JObject Plain
                [(''data'', JObject Plain [(''ok'', JBool True)] []),
                 (''response'', raw_value (json_response 401 ok_body))] [])],
            (Plain,
             [(''data'', JObject Plain [(''ok'', JBool True)] []),
              (''response'', raw_value (json_response 401 ok_body))], []))"
    by code_simp
  from error_flag_of_envelope [OF n] show ?thesis
    using n by simp
qed

text \<open>
  C3 as stated fails: a status-200 response whose JSON body is
  \<^verbatim>\<open>{"error":true,"message":"Quota exceeded"}\<close> yields an envelope with
  \<^verbatim>\<open>error === true\<close>, here returned under \<^verbatim>\<open>{raw: true, throw: false}\<close>.
\<close>

theorem status_200_with_error_counterexample:
  "snd (parseResponse example_env ''u'' (no_options\<lparr>raw := JBool True, throw := JBool False\<rparr>)
          (Some (json_response 200 quota_body)))
     = Inr (JObject Plain
              [(''error'', JBool True), (''message'', JStr ''Quota exceeded''),
               (''response'', raw_value (json_response 200 quota_body))] [])"
  by code_simp

text \<open>
  C4 fails on the code at a response whose JSON body has a primitive \<^verbatim>\<open>data\<close> next
  to a \<^verbatim>\<open>count\<close>: with \<^verbatim>\<open>{throw: false}\<close> and status 500 the envelope has its
  error set, no NetError is thrown, and \<^verbatim>\<open>Object.defineProperty\<close> on the string
  \<^verbatim>\<open>resp.data\<close> raises a TypeError instead of the data being returned.
\<close>

theorem throw_false_still_raises:
  "snd (parseResponse example_env ''u'' (no_options\<lparr>throw := JBool False\<rparr>)
          (Some (json_response 500 partial_body)))
     = Inl TypeError"
  by code_simp

text \<open>
  C5, as the code has it. When the race resolves with a status-200 transport response
  whose content type begins with \<^verbatim>\<open>application/json\<close> and whose non-empty body
  parses to an object, with \<^verbatim>\<open>noparse\<close> not set: no logout notification is emitted,
  and a feedback notification is emitted exactly when the parsed body has a truthy
  \<^verbatim>\<open>error\<close> member and \<^verbatim>\<open>options.feedback\<close> is not \<^verbatim>\<open>false\<close>. When the parsed
  body has no truthy \<^verbatim>\<open>error\<close> member and \<^verbatim>\<open>raw\<close> is not \<^verbatim>\<open>true\<close>,
  \<^verbatim>\<open>fetch\<close> returns the \<^verbatim>\<open>data\<close> member of the parsed body (not the parsed body)
  with its annotation: the returned value and the \<^verbatim>\<open>data\<close> member agree on every
  property but \<^verbatim>\<open>_schema_\<close> and \<^verbatim>\<open>_count_\<close>; \<^verbatim>\<open>_schema_\<close> is a non-enumerable
  property holding the body's \<^verbatim>\<open>schema\<close> when \<^verbatim>\<open>data\<close> and \<^verbatim>\<open>schema\<close> are
  truthy, and is as in the \<^verbatim>\<open>data\<close> member otherwise; likewise \<^verbatim>\<open>_count_\<close> and
  \<^verbatim>\<open>count\<close>. The \<^verbatim>\<open>data\<close> member is taken to be an object or falsy whenever the
  body has a truthy \<^verbatim>\<open>schema\<close> or \<^verbatim>\<open>count\<close>.
\<close>

theorem json_200_returns_the_data_member:
  assumes "a < length h"
    and "settled (run (start (h ! a)) evs) = Some (Some (Response 200 (Some txt) (Some ct)))"
    and "prefix ''application/json'' ct" and "txt \<noteq> []"
    and "\<not> truthy (noparse (h ! a))"
    and "parse env txt = Some v" and "is_object v"
  shows "''logout'' \<notin> fst ` set (notifications (fetch env h a url evs))
       \<and> ((''feedback'' \<in> fst ` set (notifications (fetch env h a url evs)))
            = (truthy (get_prop v ''error'') \<and> feedback (h ! a) \<noteq> JBool False))
       \<and> (\<not> truthy (get_prop v ''error'') \<and> raw (h ! a) \<noteq> JBool True
            \<and> (is_object (get_prop v ''data'') \<or> \<not> truthy (get_prop v ''data'')
                 \<or> (\<not> truthy (get_prop v ''schema'') \<and> \<not> truthy (get_prop v ''count'')))
          \<longrightarrow> (\<exists>d. ending (fetch env h a url evs) = Some (Inr d)
                 \<and> unannotated d = unannotated (get_prop v ''data'')
                 \<and> (\<not> truthy (get_prop v ''data'')
                      \<or> (\<not> truthy (get_prop v ''schema'') \<and> \<not> truthy (get_prop v ''count''))
                     \<longrightarrow> d = get_prop v ''data'')
                 \<and> own_prop d ''_schema_''
                     = (if truthy (get_prop v ''data'') \<and> truthy (get_prop v ''schema'')
                        then Some (False, get_prop v ''schema'')
                        else own_prop (get_prop v ''data'') ''_schema_'')
                 \<and> own_prop d ''_count_''
                     = (if truthy (get_prop v ''data'') \<and> truthy (get_prop v ''count'')
                        then Some (False, get_prop v ''count'')
                        else own_prop (get_prop v ''data'') ''_count_'')))"
proof -
  from assms(3-7) obtain resp
    where s: "set_prop v ''response'' (raw_value (Response 200 (Some txt) (Some ct))) = Inr resp"
      and p: "parseResponse env (resolve_url env (h ! a) url) (h ! a)
                (Some (Response 200 (Some txt) (Some ct)))
              = (feedback_rule 200 (h ! a) resp, snd (finish 200 (h ! a) (message_rule (h ! a) resp)))"
    by (rule parseResponse_json_200)
  have g: "obj_get resp k = get_prop v k" if "k \<noteq> ''response''" for k
    using s that by (simp add: set_prop_Inr)
  have f: "fetch env h a url evs =
           Some (fst (fetchRetry_args h a),
                 (if truthy (clear (h ! a)) then [(''clear'', JUndefined)] else [])
                 @ (if truthy (progress (h ! a)) then [(''start'', JUndefined)] else [])
                 @ feedback_rule 200 (h ! a) resp,
                 snd (finish 200 (h ! a) (message_rule (h ! a) resp)))"
    using fetch_settled [OF assms(1,2), of env url] by (simp add: p)
  have logout: "''logout'' \<notin> fst ` set (notifications (fetch env h a url evs))"
    by (auto simp: f notifications_def feedback_rule_def callback_def split: if_splits)
  have fb: "(''feedback'' \<in> fst ` set (notifications (fetch env h a url evs)))
            = (truthy (get_prop v ''error'') \<and> feedback (h ! a) \<noteq> JBool False)"
    using g [of "''error''"]
    by (auto simp: f notifications_def feedback_rule_def callback_def
             simp del: obj_get.simps split: if_splits)
  have ret: "\<exists>d. ending (fetch env h a url evs) = Some (Inr d)
                 \<and> unannotated d = unannotated (get_prop v ''data'')
                 \<and> (\<not> truthy (get_prop v ''data'')
                      \<or> (\<not> truthy (get_prop v ''schema'') \<and> \<not> truthy (get_prop v ''count''))
                     \<longrightarrow> d = get_prop v ''data'')
                 \<and> own_prop d ''_schema_''
                     = (if truthy (get_prop v ''data'') \<and> truthy (get_prop v ''schema'')
                        then Some (False, get_prop v ''schema'')
                        else own_prop (get_prop v ''data'') ''_schema_'')
                 \<and> own_prop d ''_count_''
                     = (if truthy (get_prop v ''data'') \<and> truthy (get_prop v ''count'')
                        then Some (False, get_prop v ''count'')
                        else own_prop (get_prop v ''data'') ''_count_'')"
    if quiet: "\<not> truthy (get_prop v ''error'')" and data: "raw (h ! a) \<noteq> JBool True"
      and ok: "is_object (get_prop v ''data'') \<or> \<not> truthy (get_prop v ''data'')
                 \<or> (\<not> truthy (get_prop v ''schema'') \<and> \<not> truthy (get_prop v ''count''))"
  proof -
    have err: "\<not> truthy (obj_get resp ''error'')"
      using quiet by (simp add: g)
    then have "snd (finish 200 (h ! a) (message_rule (h ! a) resp)) = annotate resp"
      using data by (simp add: message_rule_def finish_def del: obj_get.simps)
    moreover have "is_object (obj_get resp ''data'') \<or> \<not> truthy (obj_get resp ''data'')
         \<or> (\<not> truthy (obj_get resp ''schema'') \<and> \<not> truthy (obj_get resp ''count''))"
      using ok by (simp add: g)
    then obtain d where an: "annotate resp = Inr d"
      using annotate_total by blast
    ultimately have "ending (fetch env h a url evs) = Some (Inr d)"
      by (simp add: f ending_def)
    then show ?thesis
      using annotate_Inr [OF an] by (simp add: g)
  qed
  from logout fb ret show ?thesis
    by blast
qed

theorem json_200_returns_the_data_member_witness:
  "''logout'' \<notin> fst ` set (notifications (fetch example_env [no_options] 0 ''api/items''
                 [Completes (Yields (Some (json_response 200 items_body)))]))
   \<and> ''feedback'' \<notin> fst ` set (notifications (fetch example_env [no_options] 0 ''api/items''
                 [Completes (Yields (Some (json_response 200 items_body)))]))
   \<and> (\<exists>d. ending (fetch example_env [no_options] 0 ''api/items''
                 [Completes (Yields (Some (json_response 200 items_body)))]) = Some (Inr d)
         \<and> unannotated d = JObject (Array [JNum 1, JNum 2, JNum 3]) [] []
         \<and> own_prop d ''_schema_'' = None
         \<and> own_prop d ''_count_'' = Some (False, JNum 3))"
proof -
  have r: "settled (run (start ([no_options] ! 0))
             [Completes (Yields (Some (json_response 200 items_body)))])
           = Some (Some (Response 200 (Some items_body) (Some ''application/json'')))"
    by code_simp
  have p: "parse example_env items_body
           = Some (JObject Plain
                  [(''data'', JObject (Array [JNum 1, JNum 2, JNum 3]) [] []),
                   (''count'', JNum 3)] [])"
    by code_simp
  have "(0::nat) < length [no_options]" and "prefix ''application/json'' ''application/json''"
    and "items_body \<noteq> []" and "\<not> truthy (noparse ([no_options] ! 0))"
    by (simp_all add: no_options_def items_body_def)
  from json_200_returns_the_data_member [OF this(1) r this(2-4) p, of "''api/items''"]
  show ?thesis
    by (simp add: unannotated_def no_options_def)
qed

text \<open>
  C5 as stated fails twice. For the body \<^verbatim>\<open>{"data":[1,2,3],"count":3}\<close> the call
  returns the array \<^verbatim>\<open>[1,2,3]\<close> with a hidden \<^verbatim>\<open>_count_\<close>, which is not the
  parsed body; and for the body \<^verbatim>\<open>{"error":true,"message":"Quota exceeded"}\<close> a
  feedback notification is emitted although the status is 200.
\<close>

theorem json_200_counterexample:
  "ending (fetch example_env [no_options] 0 ''api/items''
             [Completes (Yields (Some (json_response 200 items_body)))])
     = Some (Inr (JObject (Array [JNum 1, JNum 2, JNum 3]) [] [(''_count_'', JNum 3)]))
   \<and> parse example_env items_body
     = Some (JObject Plain
               [(''data'', JObject (Array [JNum 1, JNum 2, JNum 3]) [] []),
                (''count'', JNum 3)] [])
   \<and> map fst (notifications (fetch example_env [no_options] 0 ''api/items''
                 [Completes (Yields (Some (json_response 200 quota_body)))]))
     = [''feedback'']"
  by code_simp

text \<open>
  C6 fails on the code at a status-401 response whose JSON body is \<^verbatim>\<open>null\<close>: the
  assignment of \<^verbatim>\<open>resp.response\<close> raises a TypeError before the status is looked
  at, and no logout notification is emitted.
\<close>

theorem no_logout_on_null_body:
  "parseResponse example_env ''u'' no_options (Some (json_response 401 null_body))
     = ([], Inl TypeError)"
  by code_simp

text \<open>
  C7 fails on the code: \<^verbatim>\<open>fetch\<close> never reads \<^verbatim>\<open>options.noprefix\<close>, the option
  its header comment documents, only \<^verbatim>\<open>options.nobase\<close>. With \<^verbatim>\<open>{noprefix: true}\<close>
  the configured prefix is still prepended; \<^verbatim>\<open>{nobase: true}\<close> gives the origin.
\<close>

theorem noprefix_is_ignored:
  "resolve_url example_env (no_options\<lparr>noprefix := JBool True\<rparr>) ''api/items''
     = ''https://api.example.com/api/items''
   \<and> resolve_url example_env (no_options\<lparr>nobase := JBool True\<rparr>) ''api/items''
     = ''https://app.example.com/api/items''"
  by code_simp

text \<open>
  C8 fails on the code for \<^verbatim>\<open>post\<close>, which assigns \<^verbatim>\<open>options.method\<close> on the
  caller's object (line 185) where \<^verbatim>\<open>get\<close> assigns it on a copy: after
  \<^verbatim>\<open>post(url, opts)\<close> with \<^verbatim>\<open>opts = {}\<close> the caller's object is
  \<^verbatim>\<open>{method: 'POST'}\<close>, after \<^verbatim>\<open>get(url, opts)\<close> it is still \<^verbatim>\<open>{}\<close>.
\<close>

theorem post_mutates_caller_options:
  "map_option (\<lambda>h. h ! 0)
     (heap_after (post example_env [no_options] 0 ''items''
        [Completes (Yields (Some (json_response 200 ok_body)))]))
     = Some (no_options\<lparr>http_method := Some ''POST''\<rparr>)
   \<and> map_option (\<lambda>h. h ! 0)
     (heap_after (get example_env [no_options] 0 ''items''
        [Completes (Yields (Some (json_response 200 ok_body)))]))
     = Some no_options"
  by code_simp

text \<open>
  C9, as the code has it. For the same response and otherwise identical options, when the
  call with \<^verbatim>\<open>raw: true\<close> returns an envelope and the call with \<^verbatim>\<open>raw\<close> absent
  or false returns a value, both emit the same notifications, and the returned value is
  the \<^verbatim>\<open>data\<close> of the envelope with its annotation: the two agree on every property
  but \<^verbatim>\<open>_schema_\<close> and \<^verbatim>\<open>_count_\<close>; in the returned value \<^verbatim>\<open>_schema_\<close> is a
  non-enumerable property holding the envelope's \<^verbatim>\<open>schema\<close> when the envelope's
  \<^verbatim>\<open>data\<close> and \<^verbatim>\<open>schema\<close> are truthy, whatever the envelope's \<^verbatim>\<open>data\<close> has
  under that name, and is as in the envelope's \<^verbatim>\<open>data\<close> otherwise; likewise
  \<^verbatim>\<open>_count_\<close> and \<^verbatim>\<open>count\<close>. The two are equal when the envelope has no truthy
  \<^verbatim>\<open>data\<close>, or neither a truthy \<^verbatim>\<open>schema\<close> nor a truthy \<^verbatim>\<open>count\<close>.
\<close>

theorem raw_data_is_the_return_before_annotation:
  assumes "raw opts \<noteq> JBool True"
    and "parseResponse env url (opts\<lparr>raw := JBool True\<rparr>) response = (ns, Inr e)"
    and "parseResponse env url opts response = (ns', Inr d)"
  shows "ns' = ns
       \<and> unannotated d = unannotated (get_prop e ''data'')
       \<and> (\<not> truthy (get_prop e ''data'')
            \<or> (\<not> truthy (get_prop e ''schema'') \<and> \<not> truthy (get_prop e ''count''))
           \<longrightarrow> d = get_prop e ''data'')
       \<and> own_prop d ''_schema_''
           = (if truthy (get_prop e ''data'') \<and> truthy (get_prop e ''schema'')
              then Some (False, get_prop e ''schema'')
              else own_prop (get_prop e ''data'') ''_schema_'')
       \<and> own_prop d ''_count_''
           = (if truthy (get_prop e ''data'') \<and> truthy (get_prop e ''count'')
              then Some (False, get_prop e ''count'')
              else own_prop (get_prop e ''data'') ''_count_'')"
proof -
  from assms(2) obtain status n0 resp
    where n: "normalise env url opts response = Inr (status, n0, resp)"
      and f: "finish status (opts\<lparr>raw := JBool True\<rparr>) resp = ([], Inr e)" and ns: "ns = n0"
    by (rule parseResponse_returns) (simp add: normalise_raw)
  from f have e: "e = of_object resp"
    and quiet: "\<not> (truthy (obj_get resp ''error'') \<and> throw opts \<noteq> JBool False)"
    by (auto simp: finish_def split: if_splits)
  from assms(3) n obtain f': "finish status opts resp = ([], Inr d)" and ns': "ns' = n0"
    by (auto elim!: parseResponse_returns)
  from f' quiet assms(1) have a: "annotate resp = Inr d"
    by (auto simp: finish_def split: if_splits)
  have g: "get_prop e k = obj_get resp k" for k
    by (simp add: e get_prop_of_object)
  show ?thesis
    using annotate_Inr [OF a] by (simp add: g ns ns')
qed

theorem raw_data_is_the_return_before_annotation_witness:
  "raw no_options \<noteq> JBool True
   \<and> parseResponse example_env ''u'' (no_options\<lparr>raw := JBool True\<rparr>)
         (Some (json_response 200 tagged_body))
       = ([], Inr (JObject Plain
                [(''data'', JObject Plain [(''_count_'', JNum 9), (''a'', JNum 1)] []),
                 (''count'', JNum 7),
                 (''response'', raw_value (json_response 200 tagged_body))] []))
   \<and> parseResponse example_env ''u'' no_options (Some (json_response 200 tagged_body))
       = ([], Inr (JObject Plain [(''a'', JNum 1)] [(''_count_'', JNum 7)]))
   \<and> unannotated (JObject Plain [(''a'', JNum 1)] [(''_count_'', JNum 7)])
       = unannotated (JObject Plain [(''_count_'', JNum 9), (''a'', JNum 1)] [])
   \<and> own_prop (JObject Plain [(''a'', JNum 1)] [(''_count_'', JNum 7)]) ''_count_''
       = Some (False, JNum 7)
   \<and> own_prop (JObject Plain [(''a'', JNum 1)] [(''_count_'', JNum 7)]) ''_schema_''
       = own_prop (JObject Plain [(''_count_'', JNum 9), (''a'', JNum 1)] []) ''_schema_''"
proof -
  have r: "raw no_options \<noteq> JBool True"
    by (simp add: no_options_def)
  have a: "parseResponse example_env ''u'' (no_options\<lparr>raw := JBool True\<rparr>)
         (Some (json_response 200 tagged_body))
       = ([], Inr (JObject Plain
                [(''data'', JObject Plain [(''_count_'', JNum 9), (''a'', JNum 1)] []),
                 (''count'', JNum 7),
                 (''response'', raw_value (json_response 200 tagged_body))] []))"
    by code_simp
  have b: "parseResponse example_env ''u'' no_options (Some (json_response 200 tagged_body))
       = ([], Inr (JObject Plain [(''a'', JNum 1)] [(''_count_'', JNum 7)]))"
    by code_simp
  from raw_data_is_the_return_before_annotation [OF r a b] show ?thesis
    using r a b by simp
qed

text \<open>
  C9 as stated fails on the annotation state: for the body
  \<^verbatim>\<open>{"data":[1,2,3],"count":3}\<close> the envelope of the raw call holds the bare array,
  the default call returns the array with a hidden \<^verbatim>\<open>_count_\<close> of 3.
\<close>

theorem raw_data_lacks_annotation_counterexample:
  "snd (parseResponse example_env ''u'' (no_options\<lparr>raw := JBool True\<rparr>)
         (Some (json_response 200 items_body)))
     = Inr (JObject Plain
              [(''data'', JObject (Array [JNum 1, JNum 2, JNum 3]) [] []),
               (''count'', JNum 3),
               (''response'', raw_value (json_response 200 items_body))] [])
   \<and> snd (parseResponse example_env ''u'' no_options (Some (json_response 200 items_body)))
     = Inr (JObject (Array [JNum 1, JNum 2, JNum 3]) [] [(''_count_'', JNum 3)])
   \<and> get_prop (JObject Plain
              [(''data'', JObject (Array [JNum 1, JNum 2, JNum 3]) [] []),
               (''count'', JNum 3),
               (''response'', raw_value (json_response 200 items_body))] []) ''data''
     \<noteq> JObject (Array [JNum 1, JNum 2, JNum 3]) [] [(''_count_'', JNum 3)]"
  by code_simp

text \<open>
  C10 fails on the code when the body is parsed as JSON: line 109 replaces the envelope
  \<^verbatim>\<open>{url}\<close> by the parsed value, and the url is gone. A text body keeps it.
\<close>

theorem json_envelope_has_no_url:
  "snd (parseResponse example_env ''https://api.example.com/items''
          (no_options\<lparr>raw := JBool True\<rparr>) (Some (json_response 200 ok_body)))
     = Inr (JObject Plain
              [(''data'', JObject Plain [(''ok'', JBool True)] []),
               (''response'', raw_value (json_response 200 ok_body))] [])
   \<and> snd (parseResponse example_env ''https://api.example.com/items''
          (no_options\<lparr>raw := JBool True\<rparr>) (Some (Response 200 (Some ''hello'') (Some ''text/plain''))))
     = Inr (JObject Plain
              [(''url'', JStr ''https://api.example.com/items''),
               (''data'', JStr ''hello''),
               (''response'', raw_value (Response 200 (Some ''hello'') (Some ''text/plain'')))] [])"
  by code_simp

end
